theory Spec2Isabelle
  imports Main
begin

section \<open>Data model\<close>

text \<open>
  The persistent entities are the Mongoose documents of \<^verbatim>\<open>models/Payment.js\<close>,
  \<^verbatim>\<open>models/Enrollment.js\<close> and \<^verbatim>\<open>models/Course.js\<close>, and the user document that
  \<^verbatim>\<open>middleware/auth.js\<close> loads into \<^verbatim>\<open>req.user\<close>. Each schema is a record; each
  \<^verbatim>\<open>enum\<close> of strings is a datatype, so that a stored value is one of the enum.
  Fields that none of the modelled handlers reads or writes and that no validator
  run by them can reject (thumbnails, ratings, refund data, progress, notes, and the
  enum fields with a default) are left out.
  A store-generated \<^verbatim>\<open>_id\<close> (an ObjectId) is a natural number; the application-level
  identifiers \<^verbatim>\<open>author_id\<close> and \<^verbatim>\<open>c_id\<close> are strings, as in the schemas.
  A \<^verbatim>\<open>Date\<close> is its time value, an integer number of milliseconds.
\<close>

type_synonym objectid = nat

datatype payment_status =
  Pay_pending | Pay_completed | Pay_failed | Pay_refunded | Pay_cancelled

datatype payment_type = Type_registration | Type_course

datatype enrollment_status =
  Enr_active | Enr_expired | Enr_cancelled | Enr_suspended

datatype course_status = Crs_draft | Crs_published | Crs_archived

record payment =
  p_oid :: objectid
  p_user :: string
  p_course :: "string option"
  p_amount :: int
  p_status :: payment_status
  p_paymentType :: payment_type
  gw_orderId :: string
  gw_paymentId :: "string option"
  gw_signature :: "string option"

record enrollment =
  e_user :: string
  e_course :: string
  e_enrolledAt :: int
  e_expiresAt :: int
  e_status :: enrollment_status
  e_payment :: objectid

record topic =
  t_title :: string
  isFree :: bool

record course_section =
  s_title :: string
  topics :: "topic list"

record course =
  c_oid :: objectid
  c_id :: string
  c_title :: string
  c_price :: int
  c_status :: course_status
  accessDuration :: string
  sections :: "course_section list"
  enrollmentCount :: int

text \<open>
  Modelled from the spec: the user document. \<^verbatim>\<open>models/User.js\<close> is not among the
  sources. The fields are those the handlers read and write on \<^verbatim>\<open>req.user\<close> and
  through \<^verbatim>\<open>User\<close>: the identity record the specification names (id, role,
  registration-fee flag), the link to the registration payment, and the \<^verbatim>\<open>_id\<close> that
  every Mongoose document has.
\<close>

record user =
  u_oid :: objectid
  author_id :: string
  role :: string
  hasPaidRegistrationFee :: bool
  registrationFeePayment :: "objectid option"

text \<open>The four collections. A handler takes the store and returns the store it leaves.\<close>

record db =
  payments :: "payment list"
  enrollments :: "enrollment list"
  courses :: "course list"
  users :: "user list"

text \<open>
  Whatever a handler can throw ends in its \<^verbatim>\<open>catch\<close> block. \<open>TypeError\<close> is
  JavaScript's own (indexing \<^verbatim>\<open>null\<close>, a missing HMAC key); the other three are
  raised by Mongoose and MongoDB.
\<close>

datatype error = TypeError | CastError | ValidationError | DuplicateKey

section \<open>Strings: \<^verbatim>\<open>includes\<close>, \<^verbatim>\<open>match(/\d+/)\<close>, \<^verbatim>\<open>parseInt\<close>\<close>

fun starts_with :: "string \<Rightarrow> string \<Rightarrow> bool" where
  "starts_with s [] = True"
| "starts_with [] (p # ps) = False"
| "starts_with (c # cs) (p # ps) = (c = p \<and> starts_with cs ps)"

text \<open>\<^verbatim>\<open>s.includes(pat)\<close>: \<open>pat\<close> occurs in \<open>s\<close> as a contiguous substring.\<close>

fun str_includes :: "string \<Rightarrow> string \<Rightarrow> bool" where
  "str_includes [] pat = starts_with [] pat"
| "str_includes (c # cs) pat = (starts_with (c # cs) pat \<or> str_includes cs pat)"

definition digit_val :: "char \<Rightarrow> nat option" where
  "digit_val c =
     (let k = (of_char c :: nat) in if 48 \<le> k \<and> k \<le> 57 then Some (k - 48) else None)"

definition is_digit :: "char \<Rightarrow> bool" where
  "is_digit c = (digit_val c \<noteq> None)"

text \<open>
  \<^verbatim>\<open>s.match(/\d+/)\<close>: the leftmost, longest run of decimal digits, or \<^verbatim>\<open>null\<close>
  (\<open>None\<close>) when \<open>s\<close> has no digit. The handler indexes the result with \<^verbatim>\<open>[0]\<close>,
  which throws a \<open>TypeError\<close> on \<^verbatim>\<open>null\<close>.
\<close>

definition match_digits :: "string \<Rightarrow> string option" where
  "match_digits s =
     (let r = dropWhile (\<lambda>c. \<not> is_digit c) s
      in if r = [] then None else Some (takeWhile is_digit r))"

text \<open>
  \<^verbatim>\<open>parseInt\<close> on a string of decimal digits is its decimal value. (The result is a
  double; the values that a double cannot hold exactly are so large that the date
  computed from them is out of range and clipped below, as the exact value is.)
\<close>

definition parseInt :: "string \<Rightarrow> int" where
  "parseInt ds = int (foldl (\<lambda>acc c. 10 * acc + (case digit_val c of Some d \<Rightarrow> d | None \<Rightarrow> 0)) 0 ds)"

section \<open>Dates: the arithmetic of \<^verbatim>\<open>setFullYear\<close>, \<^verbatim>\<open>setMonth\<close>, \<^verbatim>\<open>setDate\<close>\<close>

text \<open>
  The definitions follow the ECMAScript specification of \<^verbatim>\<open>Date\<close>. A \<^verbatim>\<open>Date\<close> holds
  a time value, milliseconds of UTC; its getters and setters work on local time, in
  the server's time zone. Integer \<open>div\<close> and \<open>mod\<close> in HOL round towards minus
  infinity, as the specification's \<open>floor\<close> and \<open>modulo\<close> do.
\<close>

definition msPerDay :: int where
  "msPerDay = 86400000"

definition isLeap :: "int \<Rightarrow> bool" where
  "isLeap y =
     (if y mod 4 \<noteq> 0 then False else if y mod 100 \<noteq> 0 then True else y mod 400 = 0)"

definition DayFromYear :: "int \<Rightarrow> int" where
  "DayFromYear y =
     365 * (y - 1970) + (y - 1969) div 4 - (y - 1901) div 100 + (y - 1601) div 400"

text \<open>Days of the year before the first of month \<open>mn\<close> (0 is January).\<close>

definition monthStart :: "bool \<Rightarrow> int \<Rightarrow> int" where
  "monthStart leap mn =
     (if mn = 0 then 0 else if mn = 1 then 31
      else (if leap then 1 else 0) +
        (if mn = 2 then 59 else if mn = 3 then 90 else if mn = 4 then 120
         else if mn = 5 then 151 else if mn = 6 then 181 else if mn = 7 then 212
         else if mn = 8 then 243 else if mn = 9 then 273 else if mn = 10 then 304
         else 334))"


text \<open>
  \<open>MakeDay year month date\<close>: the day number of the first of the month, the month
  counted from January of \<open>year\<close> and carried into the year, plus \<open>date - 1\<close>. The
  date is not checked against the length of the month: a date past the end of the
  month counts on into the months that follow.
\<close>

definition MakeDay :: "int \<Rightarrow> int \<Rightarrow> int \<Rightarrow> int" where
  "MakeDay year month dt =
     (let ym = year + month div 12; mn = month mod 12
      in DayFromYear ym + monthStart (isLeap ym) mn + dt - 1)"

definition MakeDate :: "int \<Rightarrow> int \<Rightarrow> int" where
  "MakeDate day time = day * msPerDay + time"

text \<open>\<open>TimeClip\<close>: a time value out of range is \<^verbatim>\<open>NaN\<close>, an Invalid Date (\<open>None\<close>).\<close>

definition TimeClip :: "int \<Rightarrow> int option" where
  "TimeClip t = (if \<bar>t\<bar> > 8640000000000000 then None else Some t)"

text \<open>
  The server's time zone is a parameter of the model: \<open>tza t\<close> is the offset from
  UTC, in milliseconds, that the zone gives to the local time value \<open>t\<close> (the
  specification's \<open>LocalTZA(t, false)\<close>), and \<open>UTC\<close> turns a local time value into a
  time value, as the setters do with their result. The offset may change with \<open>t\<close>,
  as it does where daylight saving time is observed.
\<close>

definition UTC :: "(int \<Rightarrow> int) \<Rightarrow> int \<Rightarrow> int" where
  "UTC tza t = t - tza t"

text \<open>
  A date of the local calendar is what \<^verbatim>\<open>getFullYear()\<close>, \<^verbatim>\<open>getMonth()\<close> (0 to 11)
  and \<^verbatim>\<open>getDate()\<close> return, and the time within the day; \<open>localTimeValue\<close> is its
  local time value. A reading of the clock, \<^verbatim>\<open>new Date()\<close>, is given by its time
  value, \<^verbatim>\<open>getTime()\<close>, and by its date in the local calendar of the server.
\<close>

record calendar =
  getFullYear :: int
  getMonth :: int
  getDate :: int
  timeWithinDay :: int

record clock = calendar +
  getTime :: int

definition localTimeValue :: "'a calendar_scheme \<Rightarrow> int" where
  "localTimeValue d =
     MakeDate (MakeDay (getFullYear d) (getMonth d) (getDate d)) (timeWithinDay d)"


text \<open>
  The expiry computed by the course branch of \<^verbatim>\<open>verify-payment\<close>:
  \<^verbatim>\<open>
  const accessDuration = course.accessDuration || '1 year';
  const expiresAt = new Date();
  if (accessDuration.includes('year')) {
    const years = parseInt(accessDuration.match(/\d+/)[0]);
    expiresAt.setFullYear(expiresAt.getFullYear() + years);
  } else if (accessDuration.includes('month')) {
    const months = parseInt(accessDuration.match(/\d+/)[0]);
    expiresAt.setMonth(expiresAt.getMonth() + months);
  } else if (accessDuration.includes('day')) {
    const days = parseInt(accessDuration.match(/\d+/)[0]);
    expiresAt.setDate(expiresAt.getDate() + days);
  }
  \<close>
  The result is \<open>Inl TypeError\<close> when \<^verbatim>\<open>match\<close> finds no digit, and otherwise the
  new time value of \<^verbatim>\<open>expiresAt\<close>, \<open>None\<close> for an Invalid Date. Each setter makes
  the new date from the fields of local time and stores \<open>TimeClip (UTC ...)\<close> of it;
  with no unit the time value is the one \<^verbatim>\<open>new Date()\<close> read.
\<close>

definition computeExpiresAt :: "(int \<Rightarrow> int) \<Rightarrow> string \<Rightarrow> clock \<Rightarrow> error + int option" where
  "computeExpiresAt tza courseAccessDuration now =
     (let duration = (if courseAccessDuration = [] then ''1 year'' else courseAccessDuration)
      in if str_includes duration ''year'' then
           (case match_digits duration of
              None \<Rightarrow> Inl TypeError
            | Some ds \<Rightarrow> Inr (TimeClip (UTC tza (MakeDate
                (MakeDay (getFullYear now + parseInt ds) (getMonth now) (getDate now))
                (timeWithinDay now)))))
         else if str_includes duration ''month'' then
           (case match_digits duration of
              None \<Rightarrow> Inl TypeError
            | Some ds \<Rightarrow> Inr (TimeClip (UTC tza (MakeDate
                (MakeDay (getFullYear now) (getMonth now + parseInt ds) (getDate now))
                (timeWithinDay now)))))
         else if str_includes duration ''day'' then
           (case match_digits duration of
              None \<Rightarrow> Inl TypeError
            | Some ds \<Rightarrow> Inr (TimeClip (UTC tza (MakeDate
                (MakeDay (getFullYear now) (getMonth now) (getDate now + parseInt ds))
                (timeWithinDay now)))))
         else Inr (Some (getTime now)))"

section \<open>The store\<close>

text \<open>
  The Mongoose calls the handlers make, over the lists of documents. \<open>find\<close>
  returns the first match, as \<^verbatim>\<open>findOne\<close> and \<^verbatim>\<open>findById\<close> do.
\<close>

fun update_first :: "('a \<Rightarrow> bool) \<Rightarrow> ('a \<Rightarrow> 'a) \<Rightarrow> 'a list \<Rightarrow> 'a list" where
  "update_first P f [] = []"
| "update_first P f (x # xs) = (if P x then f x # xs else x # update_first P f xs)"

definition Payment_findById :: "objectid \<Rightarrow> payment list \<Rightarrow> payment option" where
  "Payment_findById i ps = find (\<lambda>p. p_oid p = i) ps"

text \<open>
  \<^verbatim>\<open>payment.save()\<close> on a loaded document first runs the validators of the Payment
  schema on it: \<^verbatim>\<open>user\<close> is required (an empty string does not pass), \<^verbatim>\<open>amount\<close>
  is required with \<^verbatim>\<open>min: 0\<close>, and \<^verbatim>\<open>course\<close> is required when \<^verbatim>\<open>paymentType\<close> is
  \<^verbatim>\<open>'course'\<close>. A document that fails is not written and \<^verbatim>\<open>save\<close> throws a
  \<open>ValidationError\<close>; one that passes is written back under its \<^verbatim>\<open>_id\<close>.
\<close>

definition Payment_validate :: "payment \<Rightarrow> bool" where
  "Payment_validate p =
     (p_user p \<noteq> [] \<and> 0 \<le> p_amount p \<and>
      (case p_paymentType p of
         Type_registration \<Rightarrow> True
       | Type_course \<Rightarrow> (case p_course p of None \<Rightarrow> False | Some cid \<Rightarrow> cid \<noteq> [])))"

definition Payment_save :: "payment \<Rightarrow> payment list \<Rightarrow> error + payment list" where
  "Payment_save p ps =
     (if Payment_validate p then Inr (update_first (\<lambda>q. p_oid q = p_oid p) (\<lambda>q. p) ps)
      else Inl ValidationError)"

definition Course_findOne :: "string \<Rightarrow> course list \<Rightarrow> course option" where
  "Course_findOne cid cs = find (\<lambda>c. c_id c = cid) cs"

text \<open>
  \<^verbatim>\<open>Enrollment.findOne({ user, course, status })\<close>, the status being one value
  (\<^verbatim>\<open>'active'\<close>) or \<^verbatim>\<open>{ $in: [...] }\<close>.
\<close>

definition Enrollment_findOne ::
  "string \<Rightarrow> string \<Rightarrow> enrollment_status list \<Rightarrow> enrollment list \<Rightarrow> enrollment option" where
  "Enrollment_findOne uid cid sts ens =
     find (\<lambda>e. e_user e = uid \<and> e_course e = cid \<and> e_status e \<in> set sts) ens"

text \<open>
  \<^verbatim>\<open>Model.findByIdAndUpdate(id, update)\<close> is \<^verbatim>\<open>findOneAndUpdate({ _id: id }, update)\<close>:
  its first argument is the value looked up in \<^verbatim>\<open>_id\<close>, and Mongoose casts it to the
  type of \<^verbatim>\<open>_id\<close>. The handlers pass it either an ObjectId (\<^verbatim>\<open>course._id\<close>) or an
  object literal (\<^verbatim>\<open>{ author_id: payment.user }\<close>); an object literal with no
  \<^verbatim>\<open>$\<close>-operator cannot be cast to an ObjectId, and the query is rejected with a
  \<open>CastError\<close>. No document is updated when nothing matches.
\<close>

datatype id_arg = IdValue objectid | PlainObject "(string \<times> string) list"

definition castObjectId :: "id_arg \<Rightarrow> error + objectid" where
  "castObjectId a = (case a of IdValue i \<Rightarrow> Inr i | PlainObject kvs \<Rightarrow> Inl CastError)"

definition findByIdAndUpdate ::
  "('a \<Rightarrow> objectid) \<Rightarrow> id_arg \<Rightarrow> ('a \<Rightarrow> 'a) \<Rightarrow> 'a list \<Rightarrow> error + 'a list" where
  "findByIdAndUpdate oid a upd docs =
     (case castObjectId a of
        Inl e \<Rightarrow> Inl e
      | Inr i \<Rightarrow> Inr (update_first (\<lambda>x. oid x = i) upd docs))"

text \<open>
  \<^verbatim>\<open>new Enrollment({ user, course, payment, expiresAt }).save()\<close>. The schema
  defaults give \<^verbatim>\<open>enrolledAt = Date.now\<close> and \<^verbatim>\<open>status = 'active'\<close>. Validation comes
  first: the three strings and the date are \<^verbatim>\<open>required\<close>, an empty string and an
  Invalid Date do not pass. Then the insert meets the index
  \<^verbatim>\<open>enrollmentSchema.index({ user: 1, course: 1 }, { unique: true })\<close>, which
  rejects a second document for the pair with a duplicate-key error.
\<close>

definition Enrollment_save ::
  "string \<Rightarrow> string \<Rightarrow> objectid \<Rightarrow> int option \<Rightarrow> int \<Rightarrow> enrollment list
     \<Rightarrow> error + enrollment \<times> enrollment list" where
  "Enrollment_save uid cid pay expiresAt dateNow ens =
     (case expiresAt of
        None \<Rightarrow> Inl ValidationError
      | Some t \<Rightarrow>
          if uid = [] \<or> cid = [] then Inl ValidationError
          else if list_ex (\<lambda>e. e_user e = uid \<and> e_course e = cid) ens then Inl DuplicateKey
          else (let doc = \<lparr>e_user = uid, e_course = cid, e_enrolledAt = dateNow,
                            e_expiresAt = t, e_status = Enr_active, e_payment = pay\<rparr>
                in Inr (doc, ens @ [doc])))"

section \<open>Responses\<close>

text \<open>
  A response is its HTTP status, the \<^verbatim>\<open>success\<close> flag and the message of its JSON
  body, and the other fields of the body. \<^verbatim>\<open>res.json\<close> without \<^verbatim>\<open>res.status\<close>
  answers 200. A middleware either responds or calls \<^verbatim>\<open>next()\<close>, having stored
  what it found on the request.
\<close>

datatype jsval = Str string | Num int

datatype payload =
  NoPayload
  | RegistrationDone
  | CourseEnrolled string string int
  | NotEnrolledInfo string string int
  | ExpiredAt int
  | PaymentRequired jsval
  | ExistingEnrollment enrollment

datatype response = Response nat bool string payload

datatype 'a outcome = Respond response | Next 'a

section \<open>\<^verbatim>\<open>POST /api/razorpay/verify-payment\<close>\<close>

text \<open>
  The fields of the request body. \<^verbatim>\<open>paymentId\<close> is given by what becomes of it:
  absent or empty (\<open>NoRef\<close>, falsy), present but not the text of an ObjectId
  (\<open>BadRef\<close>, on which \<^verbatim>\<open>Payment.findById\<close> throws a \<open>CastError\<close>), or the text of
  the ObjectId \<open>i\<close>. An absent \<^verbatim>\<open>orderId\<close> or \<^verbatim>\<open>signature\<close> is the empty string, falsy
  as well. \<^verbatim>\<open>razorpay_payment_id\<close> is not checked for presence by the handler, and
  an absent one is interpolated as \<^verbatim>\<open>undefined\<close>.
\<close>

datatype payment_ref = NoRef | BadRef | Ref objectid

record verify_request =
  paymentId :: payment_ref
  orderId :: string
  signature :: string
  razorpay_payment_id :: "string option"

text \<open>
  The body of the \<^verbatim>\<open>try\<close> block. \<open>hmac key msg\<close> is
  \<^verbatim>\<open>crypto.createHmac('sha256', key).update(msg).digest('hex')\<close>; \<open>secret\<close> is
  \<^verbatim>\<open>process.env.RAZORPAY_KEY_SECRET\<close>, and \<^verbatim>\<open>createHmac\<close> throws a \<open>TypeError\<close> when
  it is not set. \<open>tza\<close> is the server's time zone, \<open>now\<close> is the clock read by
  \<^verbatim>\<open>new Date()\<close> and \<open>dateNow\<close> the one read by the schema default \<^verbatim>\<open>Date.now\<close>. The store is returned as the handler
  leaves it, also when it throws: what was saved before the exception stays saved,
  and a payment that fails validation is not saved. A payment with no \<^verbatim>\<open>course\<close>
  (one of type registration is saved without it) finds no course, every course having
  a \<^verbatim>\<open>c_id\<close>.
  The route runs \<^verbatim>\<open>authenticateToken\<close> and \<^verbatim>\<open>checkRazorpayAvailable\<close> first; the
  handler is what follows them, and it reads nothing of \<^verbatim>\<open>req.user\<close>.
\<close>

definition verify_payment_try ::
  "(string \<Rightarrow> string \<Rightarrow> string) \<Rightarrow> string option \<Rightarrow> (int \<Rightarrow> int) \<Rightarrow> clock \<Rightarrow> int
     \<Rightarrow> verify_request \<Rightarrow> db \<Rightarrow> (error + response) \<times> db" where
  "verify_payment_try hmac secret tza now dateNow req d =
     (if paymentId req = NoRef \<or> orderId req = [] \<or> signature req = [] then
        (Inr (Response 400 False ''Missing required payment verification data.'' NoPayload), d)
      else case secret of
        None \<Rightarrow> (Inl TypeError, d)
      | Some key \<Rightarrow>
        if hmac key (orderId req @ ''|'' @
              (case razorpay_payment_id req of None \<Rightarrow> ''undefined'' | Some s \<Rightarrow> s))
            \<noteq> signature req then
          (Inr (Response 400 False ''Invalid payment signature.'' NoPayload), d)
        else case paymentId req of
          NoRef \<Rightarrow> (Inl CastError, d)
        | BadRef \<Rightarrow> (Inl CastError, d)
        | Ref i \<Rightarrow>
          (case Payment_findById i (payments d) of
             None \<Rightarrow> (Inr (Response 404 False ''Payment record not found.'' NoPayload), d)
           | Some found \<Rightarrow>
             if p_status found = Pay_completed then
               (Inr (Response 400 False ''Payment has already been processed.'' NoPayload), d)
             else
               (let payment = found\<lparr>p_status := Pay_completed,
                                     gw_paymentId := razorpay_payment_id req,
                                     gw_signature := Some (signature req)\<rparr>
                in case Payment_save payment (payments d) of
                  Inl e \<Rightarrow> (Inl e, d)
                | Inr saved \<Rightarrow>
                  (let d1 = d\<lparr>payments := saved\<rparr>
                   in case p_paymentType payment of
                     Type_registration \<Rightarrow>
                       (case findByIdAndUpdate u_oid
                               (PlainObject [(''author_id'', p_user payment)])
                               (\<lambda>u. u\<lparr>hasPaidRegistrationFee := True,
                                        registrationFeePayment := Some (p_oid payment)\<rparr>)
                               (users d1) of
                          Inl e \<Rightarrow> (Inl e, d1)
                        | Inr us \<Rightarrow>
                            (Inr (Response 200 True
                               ''Registration fee payment successful! You can now enroll in courses.''
                               RegistrationDone), d1\<lparr>users := us\<rparr>))
                   | Type_course \<Rightarrow>
                       (case p_course payment of
                          None \<Rightarrow> (Inr (Response 404 False ''Course not found.'' NoPayload), d1)
                        | Some cid \<Rightarrow>
                          (case Course_findOne cid (courses d1) of
                             None \<Rightarrow>
                               (Inr (Response 404 False ''Course not found.'' NoPayload), d1)
                           | Some crs \<Rightarrow>
                             (case computeExpiresAt tza (accessDuration crs) now of
                                Inl e \<Rightarrow> (Inl e, d1)
                              | Inr expiresAt \<Rightarrow>
                                (case Enrollment_save (p_user payment) cid (p_oid payment)
                                        expiresAt dateNow (enrollments d1) of
                                   Inl e \<Rightarrow> (Inl e, d1)
                                 | Inr (doc, ens) \<Rightarrow>
                                   (let d2 = d1\<lparr>enrollments := ens\<rparr>
                                    in case findByIdAndUpdate c_oid (IdValue (c_oid crs))
                                              (\<lambda>c. c\<lparr>enrollmentCount := enrollmentCount c + 1\<rparr>)
                                              (courses d2) of
                                      Inl e \<Rightarrow> (Inl e, d2)
                                    | Inr cs \<Rightarrow>
                                        (Inr (Response 200 True
                                           ''Course enrollment successful! You now have access to the course content.''
                                           (CourseEnrolled (c_id crs) (c_title crs)
                                              (e_expiresAt doc))),
                                         d2\<lparr>courses := cs\<rparr>))))))))))"

text \<open>The handler: whatever the body throws is answered by the \<^verbatim>\<open>catch\<close> block.\<close>

definition verify_payment ::
  "(string \<Rightarrow> string \<Rightarrow> string) \<Rightarrow> string option \<Rightarrow> (int \<Rightarrow> int) \<Rightarrow> clock \<Rightarrow> int
     \<Rightarrow> verify_request \<Rightarrow> db \<Rightarrow> response \<times> db" where
  "verify_payment hmac secret tza now dateNow req d =
     (case verify_payment_try hmac secret tza now dateNow req d of
        (Inl e, d') \<Rightarrow>
          (Response 500 False ''Payment verification failed. Please contact support.'' NoPayload, d')
      | (Inr r, d') \<Rightarrow> (r, d'))"

section \<open>The access middleware\<close>

text \<open>
  \<^verbatim>\<open>req.user?.author_id\<close>: the empty string stands for \<^verbatim>\<open>undefined\<close>, both falsy.
\<close>

definition userId_of :: "user option \<Rightarrow> string" where
  "userId_of u = (case u of None \<Rightarrow> [] | Some x \<Rightarrow> author_id x)"

text \<open>
  \<open>checkCourseAccess now user courseId d\<close>, \<open>now\<close> being the time value of the
  \<^verbatim>\<open>new Date()\<close> it compares with \<^verbatim>\<open>enrollment.expiresAt\<close>. On \<^verbatim>\<open>next()\<close> the request
  carries \<^verbatim>\<open>req.enrollment\<close> and \<^verbatim>\<open>req.course\<close>.
\<close>

definition checkCourseAccess ::
  "int \<Rightarrow> user option \<Rightarrow> string \<Rightarrow> db \<Rightarrow> (enrollment \<times> course) outcome" where
  "checkCourseAccess now usr courseId d =
     (let userId = userId_of usr in
      if userId = [] then
        Respond (Response 401 False ''Authentication required to access course content.'' NoPayload)
      else case Course_findOne courseId (courses d) of
        None \<Rightarrow> Respond (Response 404 False ''Course not found.'' NoPayload)
      | Some crs \<Rightarrow>
        if c_status crs \<noteq> Crs_published then
          Respond (Response 403 False ''Course is not available for access.'' NoPayload)
        else case Enrollment_findOne userId courseId [Enr_active] (enrollments d) of
          None \<Rightarrow>
            Respond (Response 403 False
              ''You are not enrolled in this course. Please enroll to access the content.''
              (NotEnrolledInfo courseId (c_title crs) (c_price crs)))
        | Some enr \<Rightarrow>
            if now > e_expiresAt enr then
              Respond (Response 403 False
                ''Your course access has expired. Please renew your enrollment.''
                (ExpiredAt (e_expiresAt enr)))
            else Next (enr, crs))"

text \<open>
  \<^verbatim>\<open>xs[parseInt(s)]\<close>: the index is given as \<^verbatim>\<open>parseInt\<close> returns it, \<open>None\<close> for
  \<^verbatim>\<open>NaN\<close>; outside the array the element is \<^verbatim>\<open>undefined\<close>.
\<close>

definition js_index :: "'a list \<Rightarrow> int option \<Rightarrow> 'a option" where
  "js_index xs i =
     (case i of
        None \<Rightarrow> None
      | Some k \<Rightarrow> if 0 \<le> k \<and> k < int (length xs) then Some (xs ! nat k) else None)"

text \<open>
  \<open>checkTopicAccess\<close>. On \<^verbatim>\<open>next()\<close> the request carries \<^verbatim>\<open>req.topic\<close>,
  \<^verbatim>\<open>req.section\<close> and, for a topic that is not free, \<^verbatim>\<open>req.enrollment\<close>.
\<close>

definition checkTopicAccess ::
  "int \<Rightarrow> user option \<Rightarrow> string \<Rightarrow> int option \<Rightarrow> int option \<Rightarrow> db
     \<Rightarrow> (topic \<times> course_section \<times> enrollment option) outcome" where
  "checkTopicAccess now usr courseId sectionIndex topicIndex d =
     (let userId = userId_of usr in
      if userId = [] then
        Respond (Response 401 False ''Authentication required.'' NoPayload)
      else case Course_findOne courseId (courses d) of
        None \<Rightarrow> Respond (Response 404 False ''Course not found.'' NoPayload)
      | Some crs \<Rightarrow>
        (case js_index (sections crs) sectionIndex of
           None \<Rightarrow> Respond (Response 404 False ''Section not found.'' NoPayload)
         | Some sec \<Rightarrow>
           (case js_index (topics sec) topicIndex of
              None \<Rightarrow> Respond (Response 404 False ''Topic not found.'' NoPayload)
            | Some tpc \<Rightarrow>
              if isFree tpc then Next (tpc, sec, None)
              else case Enrollment_findOne userId courseId [Enr_active] (enrollments d) of
                None \<Rightarrow>
                  Respond (Response 403 False
                    ''You need to enroll in this course to access this content.''
                    (NotEnrolledInfo courseId (c_title crs) (c_price crs)))
              | Some enr \<Rightarrow>
                  if now > e_expiresAt enr then
                    Respond (Response 403 False ''Your course access has expired.'' NoPayload)
                  else Next (tpc, sec, Some enr))))"

text \<open>
  \<^verbatim>\<open>process.env.REGISTRATION_FEE_AMOUNT || 699\<close>: the variable's text when it is set
  and not empty, the number 699 otherwise.
\<close>

definition registrationFeeAmount :: "string option \<Rightarrow> jsval" where
  "registrationFeeAmount feeEnv =
     (case feeEnv of None \<Rightarrow> Num 699 | Some s \<Rightarrow> if s = [] then Num 699 else Str s)"

text \<open>\<open>checkEnrollmentEligibility\<close>. On \<^verbatim>\<open>next()\<close> the request carries \<^verbatim>\<open>req.course\<close>.\<close>

definition checkEnrollmentEligibility ::
  "string option \<Rightarrow> user option \<Rightarrow> string \<Rightarrow> db \<Rightarrow> course outcome" where
  "checkEnrollmentEligibility feeEnv usr courseId d =
     (case usr of
        None \<Rightarrow> Respond (Response 401 False ''Authentication required.'' NoPayload)
      | Some u \<Rightarrow>
        if author_id u = [] then
          Respond (Response 401 False ''Authentication required.'' NoPayload)
        else if \<not> hasPaidRegistrationFee u \<and> role u = ''student'' then
          Respond (Response 402 False
            ''Registration fee payment required to enroll in courses.''
            (PaymentRequired (registrationFeeAmount feeEnv)))
        else case Enrollment_findOne (author_id u) courseId [Enr_active, Enr_expired]
                    (enrollments d) of
          Some existing \<Rightarrow>
            Respond (Response 400 False ''You are already enrolled in this course.''
              (ExistingEnrollment existing))
        | None \<Rightarrow>
          (case Course_findOne courseId (courses d) of
             None \<Rightarrow> Respond (Response 404 False ''Course not found.'' NoPayload)
           | Some crs \<Rightarrow>
             if c_status crs \<noteq> Crs_published then
               Respond (Response 400 False ''Course is not available for enrollment.'' NoPayload)
             else Next crs))"

text \<open>
  \<open>requireRegistrationFee\<close> of \<^verbatim>\<open>middleware/auth.js\<close>, the gate in front of
  \<^verbatim>\<open>create-course-order\<close>.
\<close>

definition requireRegistrationFee :: "string option \<Rightarrow> user option \<Rightarrow> unit outcome" where
  "requireRegistrationFee feeEnv usr =
     (case usr of
        None \<Rightarrow> Respond (Response 401 False ''Authentication required.'' NoPayload)
      | Some u \<Rightarrow>
        if role u = ''admin'' \<or> role u = ''beta'' then Next ()
        else if \<not> hasPaidRegistrationFee u then
          Respond (Response 402 False
            ''Registration fee payment required to access this feature.''
            (PaymentRequired (registrationFeeAmount feeEnv)))
        else Next ())"

section \<open>Properties to state, and example data\<close>

text \<open>No two enrollments of a collection are for the same user and course.\<close>

definition unique_enrollments :: "enrollment list \<Rightarrow> bool" where
  "unique_enrollments ens = distinct (map (\<lambda>e. (e_user e, e_course e)) ens)"

text \<open>
  Any number of verification requests, one after the other, each with its own two
  readings of the clock.
\<close>

fun run_verifications ::
  "(string \<Rightarrow> string \<Rightarrow> string) \<Rightarrow> string option \<Rightarrow> (int \<Rightarrow> int)
     \<Rightarrow> (clock \<times> int \<times> verify_request) list \<Rightarrow> db \<Rightarrow> db" where
  "run_verifications hmac secret tza [] d = d"
| "run_verifications hmac secret tza ((now, dateNow, req) # rest) d =
     run_verifications hmac secret tza rest
       (snd (verify_payment hmac secret tza now dateNow req d))"


text \<open>
  A request passes the checks of \<^verbatim>\<open>verify-payment\<close> that come before the status is
  written: its fields are present, its signature is the keyed hash of
  \<^verbatim>\<open>orderId|razorpay_payment_id\<close>, the payment \<open>p\<close> is found under its id, and \<open>p\<close> is
  not completed yet. \<open>marked_completed req p\<close> is \<open>p\<close> as the handler then saves it,
  and \<open>saved_payments req p ps\<close> the collection \<open>ps\<close> once it is saved.
\<close>

definition passes_checks ::
  "(string \<Rightarrow> string \<Rightarrow> string) \<Rightarrow> string \<Rightarrow> verify_request \<Rightarrow> db \<Rightarrow> objectid \<Rightarrow> payment
     \<Rightarrow> bool" where
  "passes_checks hmac key req d i p =
     (paymentId req = Ref i \<and> orderId req \<noteq> [] \<and> signature req \<noteq> [] \<and>
      hmac key (orderId req @ ''|'' @
        (case razorpay_payment_id req of None \<Rightarrow> ''undefined'' | Some s \<Rightarrow> s)) = signature req \<and>
      Payment_findById i (payments d) = Some p \<and> p_status p \<noteq> Pay_completed)"

abbreviation marked_completed :: "verify_request \<Rightarrow> payment \<Rightarrow> payment" where
  "marked_completed req p \<equiv>
     p\<lparr>p_status := Pay_completed, gw_paymentId := razorpay_payment_id req,
       gw_signature := Some (signature req)\<rparr>"

abbreviation saved_payments :: "verify_request \<Rightarrow> payment \<Rightarrow> payment list \<Rightarrow> payment list" where
  "saved_payments req p ps \<equiv>
     update_first (\<lambda>q. p_oid q = p_oid p) (\<lambda>q. marked_completed req p) ps"



text \<open>
  Data for the concrete instances below. \<open>demo_hmac\<close> stands in for HMAC-SHA256 there;
  the theorems themselves hold for every keyed function. \<open>zone_utc\<close> is a server on
  UTC, \<open>zone_ist\<close> one five and a half hours ahead of it; \<open>demo_now\<close> is midnight of 31
  January 2024 on UTC as the first reads it, \<open>demo_now_ist\<close> the same instant as the
  second reads it.
\<close>

definition demo_hmac :: "string \<Rightarrow> string \<Rightarrow> string" where
  "demo_hmac key msg = key @ msg"

definition zone_utc :: "int \<Rightarrow> int" where
  "zone_utc t = 0"

definition zone_ist :: "int \<Rightarrow> int" where
  "zone_ist t = 19800000"

definition demo_now :: clock where
  "demo_now = \<lparr>getFullYear = 2024, getMonth = 0, getDate = 31, timeWithinDay = 0,
     getTime = 1706659200000\<rparr>"

definition demo_now_ist :: clock where
  "demo_now_ist = \<lparr>getFullYear = 2024, getMonth = 0, getDate = 31, timeWithinDay = 19800000,
     getTime = 1706659200000\<rparr>"

definition demo_student :: user where
  "demo_student = \<lparr>u_oid = 3, author_id = ''u1'', role = ''student'',
     hasPaidRegistrationFee = False, registrationFeePayment = None\<rparr>"

definition demo_course :: course where
  "demo_course = \<lparr>c_oid = 7, c_id = ''c1'', c_title = ''Algebra'', c_price = 500,
     c_status = Crs_published, accessDuration = ''1 year'',
     sections = [\<lparr>s_title = ''Intro'', topics = [\<lparr>t_title = ''Preview'', isFree = True\<rparr>,
                                                  \<lparr>t_title = ''Paid'', isFree = False\<rparr>]\<rparr>],
     enrollmentCount = 0\<rparr>"

definition demo_course_payment :: payment where
  "demo_course_payment = \<lparr>p_oid = 1, p_user = ''u1'', p_course = Some ''c1'', p_amount = 500,
     p_status = Pay_pending, p_paymentType = Type_course, gw_orderId = ''o1'',
     gw_paymentId = None, gw_signature = None\<rparr>"

definition demo_registration_payment :: payment where
  "demo_registration_payment = \<lparr>p_oid = 2, p_user = ''u1'', p_course = None, p_amount = 699,
     p_status = Pay_pending, p_paymentType = Type_registration, gw_orderId = ''o2'',
     gw_paymentId = None, gw_signature = None\<rparr>"

definition demo_request :: verify_request where
  "demo_request = \<lparr>paymentId = Ref 1, orderId = ''o1'', signature = ''ko1|p1'',
     razorpay_payment_id = Some ''p1''\<rparr>"

definition demo_registration_request :: verify_request where
  "demo_registration_request = \<lparr>paymentId = Ref 2, orderId = ''o2'', signature = ''ko2|p2'',
     razorpay_payment_id = Some ''p2''\<rparr>"

definition demo_enrollment :: enrollment where
  "demo_enrollment = \<lparr>e_user = ''u1'', e_course = ''c1'', e_enrolledAt = 1000,
     e_expiresAt = 2000, e_status = Enr_active, e_payment = 9\<rparr>"

definition demo_db :: db where
  "demo_db = \<lparr>payments = [demo_course_payment, demo_registration_payment], enrollments = [],
     courses = [demo_course], users = [demo_student]\<rparr>"

definition demo_lifetime_db :: db where
  "demo_lifetime_db = demo_db\<lparr>courses := [demo_course\<lparr>accessDuration := ''lifetime''\<rparr>]\<rparr>"

lemmas demo_defs = demo_hmac_def zone_utc_def demo_now_def demo_student_def demo_course_def
  demo_course_payment_def demo_registration_payment_def demo_request_def
  demo_enrollment_def demo_db_def

section \<open>The access gate\<close>

text \<open>
  C7. For an authenticated user and a published course, when the lookup
  \<^verbatim>\<open>Enrollment.findOne({ user, course, status: 'active' })\<close> finds an enrollment,
  \<open>checkCourseAccess\<close> denies with the expired-access response (403, carrying
  \<open>expiresAt\<close>) exactly when the clock is past the enrollment's \<open>expiresAt\<close>, although
  the stored status it matched is still \<open>active\<close>; otherwise it calls \<^verbatim>\<open>next()\<close> with
  the enrollment (and the course) on the request. The middleware returns no store:
  nothing is written back.
\<close>

theorem courseAccess_expiry_at_read_time:
  assumes "author_id u \<noteq> []"
    and "Course_findOne courseId (courses d) = Some crs"
    and "c_status crs = Crs_published"
    and "Enrollment_findOne (author_id u) courseId [Enr_active] (enrollments d) = Some enr"
  shows "e_status enr = Enr_active \<and>
    checkCourseAccess now (Some u) courseId d =
      (if now > e_expiresAt enr then
         Respond (Response 403 False
           ''Your course access has expired. Please renew your enrollment.''
           (ExpiredAt (e_expiresAt enr)))
       else Next (enr, crs))"
proof -
  from assms(4) have "e_status enr = Enr_active"
    by (auto simp: Enrollment_findOne_def find_Some_iff)
  moreover have "checkCourseAccess now (Some u) courseId d =
      (if now > e_expiresAt enr then
         Respond (Response 403 False
           ''Your course access has expired. Please renew your enrollment.''
           (ExpiredAt (e_expiresAt enr)))
       else Next (enr, crs))"
    using assms by (simp add: checkCourseAccess_def userId_of_def)
  ultimately show ?thesis by simp
qed

theorem courseAccess_expiry_at_read_time_witness:
  "checkCourseAccess 2001 (Some demo_student) ''c1'' (demo_db\<lparr>enrollments := [demo_enrollment]\<rparr>) =
     Respond (Response 403 False
       ''Your course access has expired. Please renew your enrollment.'' (ExpiredAt 2000))
   \<and> checkCourseAccess 2000 (Some demo_student) ''c1'' (demo_db\<lparr>enrollments := [demo_enrollment]\<rparr>) =
     Next (demo_enrollment, demo_course)
   \<and> e_status demo_enrollment = Enr_active"
  using courseAccess_expiry_at_read_time [of demo_student "''c1''"
      "demo_db\<lparr>enrollments := [demo_enrollment]\<rparr>" demo_course demo_enrollment 2001]
    courseAccess_expiry_at_read_time [of demo_student "''c1''"
      "demo_db\<lparr>enrollments := [demo_enrollment]\<rparr>" demo_course demo_enrollment 2000]
  by (simp add: demo_defs Course_findOne_def Enrollment_findOne_def)

text \<open>
  C6, as the code has it. \<open>checkTopicAccess\<close> answers 401 to a caller with no user
  before it looks at the course, so a free topic is not served to an unauthenticated
  caller: the claim fails there. Here a free topic of the example course is requested
  with no user.
\<close>

theorem free_topic_unauthenticated_counterexample:
  "js_index (sections demo_course) (Some 0) = Some \<lparr>s_title = ''Intro'',
       topics = [\<lparr>t_title = ''Preview'', isFree = True\<rparr>, \<lparr>t_title = ''Paid'', isFree = False\<rparr>]\<rparr>
   \<and> checkTopicAccess 0 None ''c1'' (Some 0) (Some 0) demo_db =
       Respond (Response 401 False ''Authentication required.'' NoPayload)"
  by (simp add: demo_defs checkTopicAccess_def userId_of_def js_index_def)

text \<open>
  C6, amended. For an authenticated caller, a topic that resolves and whose \<open>isFree\<close>
  flag is set is admitted whatever the enrollment collection holds (no enrollment is
  looked up, none is put on the request); a caller with no user is answered 401.
\<close>

theorem free_topic_admits_authenticated:
  assumes "author_id u \<noteq> []"
    and "Course_findOne courseId (courses d) = Some crs"
    and "js_index (sections crs) sectionIndex = Some sec"
    and "js_index (topics sec) topicIndex = Some tpc"
    and "isFree tpc"
  shows "checkTopicAccess now (Some u) courseId sectionIndex topicIndex (d\<lparr>enrollments := ens\<rparr>) =
           Next (tpc, sec, None)
       \<and> checkTopicAccess now None courseId sectionIndex topicIndex (d\<lparr>enrollments := ens\<rparr>) =
           Respond (Response 401 False ''Authentication required.'' NoPayload)"
  using assms by (simp add: checkTopicAccess_def userId_of_def)

theorem free_topic_admits_authenticated_witness:
  "checkTopicAccess 0 (Some demo_student) ''c1'' (Some 0) (Some 0) (demo_db\<lparr>enrollments := []\<rparr>) =
     Next (\<lparr>t_title = ''Preview'', isFree = True\<rparr>,
           \<lparr>s_title = ''Intro'',
            topics = [\<lparr>t_title = ''Preview'', isFree = True\<rparr>, \<lparr>t_title = ''Paid'', isFree = False\<rparr>]\<rparr>,
           None)"
  using free_topic_admits_authenticated [of demo_student "''c1''" demo_db demo_course "Some 0"
      "\<lparr>s_title = ''Intro'',
        topics = [\<lparr>t_title = ''Preview'', isFree = True\<rparr>, \<lparr>t_title = ''Paid'', isFree = False\<rparr>]\<rparr>"
      "Some 0" "\<lparr>t_title = ''Preview'', isFree = True\<rparr>" 0 "[]"]
  by (simp add: demo_defs Course_findOne_def js_index_def)

text \<open>
  C9. For an authenticated user, \<open>checkEnrollmentEligibility\<close> answers 402, the
  registration fee being required, when the role is \<^verbatim>\<open>student\<close> and the
  registration-fee flag is not set, and it answers 402 in no other case: with any
  other role the check is passed over, flag unset or not. The body of the 402 carries
  the fee amount: the text of \<^verbatim>\<open>REGISTRATION_FEE_AMOUNT\<close> when that is configured
  (set and not empty), and the number 699 when it is not.
\<close>

theorem enrollmentEligibility_registration_fee:
  assumes "author_id u \<noteq> []"
  shows "(role u = ''student'' \<and> \<not> hasPaidRegistrationFee u \<longrightarrow>
            checkEnrollmentEligibility feeEnv (Some u) courseId d =
              Respond (Response 402 False
                ''Registration fee payment required to enroll in courses.''
                (PaymentRequired
                   (case feeEnv of
                      None \<Rightarrow> Num 699
                    | Some amount \<Rightarrow> if amount = [] then Num 699 else Str amount))))
       \<and> (\<not> (role u = ''student'' \<and> \<not> hasPaidRegistrationFee u) \<longrightarrow>
            (\<forall>ok msg extra. checkEnrollmentEligibility feeEnv (Some u) courseId d \<noteq>
               Respond (Response 402 ok msg extra)))"
  using assms
  by (auto simp: checkEnrollmentEligibility_def registrationFeeAmount_def
      split: option.splits)

theorem enrollmentEligibility_registration_fee_witness:
  "checkEnrollmentEligibility None (Some demo_student) ''c1'' demo_db =
     Respond (Response 402 False ''Registration fee payment required to enroll in courses.''
       (PaymentRequired (Num 699)))
   \<and> checkEnrollmentEligibility (Some ''500'') (Some demo_student) ''c1'' demo_db =
     Respond (Response 402 False ''Registration fee payment required to enroll in courses.''
       (PaymentRequired (Str ''500'')))
   \<and> checkEnrollmentEligibility None (Some (demo_student\<lparr>role := ''beta''\<rparr>)) ''c1'' demo_db =
     Next demo_course
   \<and> checkEnrollmentEligibility None
       (Some (demo_student\<lparr>hasPaidRegistrationFee := True\<rparr>)) ''c1'' demo_db =
     Next demo_course"
proof -
  have a: "checkEnrollmentEligibility None (Some demo_student) ''c1'' demo_db =
     Respond (Response 402 False ''Registration fee payment required to enroll in courses.''
       (PaymentRequired (Num 699)))"
    using enrollmentEligibility_registration_fee [of demo_student None "''c1''" demo_db]
    by (simp add: demo_defs)
  have b: "checkEnrollmentEligibility (Some ''500'') (Some demo_student) ''c1'' demo_db =
     Respond (Response 402 False ''Registration fee payment required to enroll in courses.''
       (PaymentRequired (Str ''500'')))"
    using enrollmentEligibility_registration_fee [of demo_student "Some ''500''" "''c1''" demo_db]
    by (simp add: demo_defs)
  have c: "checkEnrollmentEligibility None (Some (demo_student\<lparr>role := ''beta''\<rparr>)) ''c1'' demo_db =
     Next demo_course"
    by (simp add: demo_defs checkEnrollmentEligibility_def Enrollment_findOne_def Course_findOne_def)
  have e: "checkEnrollmentEligibility None
       (Some (demo_student\<lparr>hasPaidRegistrationFee := True\<rparr>)) ''c1'' demo_db =
     Next demo_course"
    by (simp add: demo_defs checkEnrollmentEligibility_def Enrollment_findOne_def Course_findOne_def)
  show ?thesis using a b c e by simp
qed

section \<open>Verification of a payment\<close>

text \<open>How the concrete instances below are evaluated.\<close>

lemmas eval_defs = verify_payment_def verify_payment_try_def Payment_findById_def
  Payment_save_def Payment_validate_def Course_findOne_def Enrollment_findOne_def
  computeExpiresAt_def match_digits_def is_digit_def digit_val_def parseInt_def TimeClip_def
  UTC_def MakeDate_def MakeDay_def DayFromYear_def monthStart_def isLeap_def msPerDay_def
  localTimeValue_def Enrollment_save_def findByIdAndUpdate_def castObjectId_def Let_def

text \<open>
  C2, as the code has it. The example payment is verified twice with the same valid
  request. The first call answers success; the second is answered with status 400 and
  \<^verbatim>\<open>success: false\<close>, an error to the caller and not a success.
\<close>

theorem verify_twice_counterexample:
  "fst (verify_payment demo_hmac (Some ''k'') zone_utc demo_now 5 demo_request demo_db) =
     Response 200 True
       ''Course enrollment successful! You now have access to the course content.''
       (CourseEnrolled ''c1'' ''Algebra'' 1738281600000)
   \<and> fst (verify_payment demo_hmac (Some ''k'') zone_utc demo_now 5 demo_request
        (snd (verify_payment demo_hmac (Some ''k'') zone_utc demo_now 5 demo_request demo_db))) =
     Response 400 False ''Payment has already been processed.'' NoPayload"
  by (simp add: demo_defs eval_defs)

text \<open>
  C2, amended. A verification with valid inputs of a payment whose status is already
  \<open>completed\<close> is rejected with status 400, \<^verbatim>\<open>success: false\<close> and the message that the
  payment has already been processed, and it leaves the store as it found it: no
  status is written, no enrollment is created, no counter is incremented.
\<close>

theorem verify_completed_payment_rejected:
  assumes "paymentId req = Ref i" and "orderId req \<noteq> []" and "signature req \<noteq> []"
    and "hmac key (orderId req @ ''|'' @
           (case razorpay_payment_id req of None \<Rightarrow> ''undefined'' | Some s \<Rightarrow> s)) = signature req"
    and "Payment_findById i (payments d) = Some p"
    and "p_status p = Pay_completed"
  shows "verify_payment hmac (Some key) tza now dateNow req d =
    (Response 400 False ''Payment has already been processed.'' NoPayload, d)"
  using assms by (simp add: verify_payment_def verify_payment_try_def)

theorem verify_completed_payment_rejected_witness:
  "verify_payment demo_hmac (Some ''k'') zone_utc demo_now 5 demo_request
     (demo_db\<lparr>payments := [demo_course_payment\<lparr>p_status := Pay_completed\<rparr>]\<rparr>) =
   (Response 400 False ''Payment has already been processed.'' NoPayload,
    demo_db\<lparr>payments := [demo_course_payment\<lparr>p_status := Pay_completed\<rparr>]\<rparr>)"
  using verify_completed_payment_rejected [of demo_request 1 demo_hmac "''k''"
      "demo_db\<lparr>payments := [demo_course_payment\<lparr>p_status := Pay_completed\<rparr>]\<rparr>"
      "demo_course_payment\<lparr>p_status := Pay_completed\<rparr>" zone_utc demo_now 5]
  by (simp add: demo_defs Payment_findById_def)

subsection \<open>One enrollment for a user and a course\<close>

lemma Enrollment_save_unique:
  assumes "Enrollment_save uid cid pay t dn ens = Inr (doc, ens')" and "unique_enrollments ens"
  shows "unique_enrollments ens'"
  using assms
  by (auto simp: Enrollment_save_def unique_enrollments_def list_ex_iff Let_def
      split: option.splits if_splits)

lemma verify_payment_try_enrollments:
  "enrollments (snd (verify_payment_try hmac secret tza now dateNow req d)) = enrollments d \<or>
   (\<exists>uid cid pay t doc.
      Enrollment_save uid cid pay t dateNow (enrollments d) =
        Inr (doc, enrollments (snd (verify_payment_try hmac secret tza now dateNow req d))))"
  by (auto simp: verify_payment_try_def Let_def findByIdAndUpdate_def castObjectId_def
      split: option.splits payment_ref.splits payment_type.splits sum.splits prod.splits)

lemma verify_payment_snd:
  "snd (verify_payment hmac secret tza now dateNow req d) =
   snd (verify_payment_try hmac secret tza now dateNow req d)"
  by (simp add: verify_payment_def split: prod.splits sum.splits)

lemma verify_payment_unique:
  assumes "unique_enrollments (enrollments d)"
  shows "unique_enrollments
    (enrollments (snd (verify_payment hmac secret tza now dateNow req d)))"
  using verify_payment_try_enrollments [of hmac secret tza now dateNow req d] assms
  by (auto simp: verify_payment_snd dest: Enrollment_save_unique)

lemma run_verifications_unique:
  "unique_enrollments (enrollments d) \<Longrightarrow>
   unique_enrollments (enrollments (run_verifications hmac secret tza reqs d))"
proof (induction reqs arbitrary: d)
  case Nil
  then show ?case by simp
next
  case (Cons r reqs)
  obtain now dateNow req where r: "r = (now, dateNow, req)" by (cases r) auto
  show ?case unfolding r run_verifications.simps
    by (rule Cons.IH) (rule verify_payment_unique [OF Cons.prems])
qed

text \<open>
  C1. In a store where no two enrollments are for the same user and course, none are
  after any sequence of payment verifications, the one handler that inserts
  enrollments; and the unique index on \<open>(user, course)\<close> rejects the insert of a second
  document for a pair that has one with a duplicate-key error, which the handler's
  \<^verbatim>\<open>catch\<close> block answers with status 500.
\<close>

theorem unique_enrollment_per_pair:
  assumes "unique_enrollments (enrollments d)"
  shows "unique_enrollments (enrollments (run_verifications hmac secret tza reqs d))
       \<and> (list_ex (\<lambda>e. e_user e = uid \<and> e_course e = cid) (enrollments d) \<and>
            uid \<noteq> [] \<and> cid \<noteq> [] \<longrightarrow>
          Enrollment_save uid cid pay (Some t) dateNow (enrollments d) = Inl DuplicateKey)"
  using run_verifications_unique [OF assms] by (simp add: Enrollment_save_def)

theorem unique_enrollment_per_pair_witness:
  "unique_enrollments (enrollments (run_verifications demo_hmac (Some ''k'') zone_utc
       [(demo_now, 5, demo_request), (demo_now, 6, demo_request)] demo_db))
   \<and> enrollments (run_verifications demo_hmac (Some ''k'') zone_utc
       [(demo_now, 5, demo_request), (demo_now, 6, demo_request)] demo_db) =
       [\<lparr>e_user = ''u1'', e_course = ''c1'', e_enrolledAt = 5, e_expiresAt = 1738281600000,
         e_status = Enr_active, e_payment = 1\<rparr>]
   \<and> Enrollment_save ''u1'' ''c1'' 4 (Some 3000) 2500 [demo_enrollment] = Inl DuplicateKey"
proof -
  have a: "unique_enrollments (enrollments (run_verifications demo_hmac (Some ''k'') zone_utc
       [(demo_now, 5, demo_request), (demo_now, 6, demo_request)] demo_db))"
    using unique_enrollment_per_pair [of demo_db demo_hmac "Some ''k''" zone_utc
        "[(demo_now, 5, demo_request), (demo_now, 6, demo_request)]"]
    by (simp add: demo_defs unique_enrollments_def)
  have b: "enrollments (run_verifications demo_hmac (Some ''k'') zone_utc
       [(demo_now, 5, demo_request), (demo_now, 6, demo_request)] demo_db) =
       [\<lparr>e_user = ''u1'', e_course = ''c1'', e_enrolledAt = 5, e_expiresAt = 1738281600000,
         e_status = Enr_active, e_payment = 1\<rparr>]"
    by (simp add: demo_defs eval_defs)
  have c: "Enrollment_save ''u1'' ''c1'' 4 (Some 3000) 2500 [demo_enrollment] = Inl DuplicateKey"
    using unique_enrollment_per_pair [where d = "demo_db\<lparr>enrollments := [demo_enrollment]\<rparr>"
        and uid = "''u1''" and cid = "''c1''" and pay = 4 and t = 3000 and dateNow = 2500]
    by (simp add: demo_defs unique_enrollments_def)
  show ?thesis using a b c by simp
qed

subsection \<open>The status write and what follows it\<close>

lemma find_update_first:
  "find P xs = Some x \<Longrightarrow> P y \<Longrightarrow> find P (update_first P (\<lambda>q. y) xs) = Some y"
  by (induction xs) (auto split: if_splits)

lemma Payment_findById_oid: "Payment_findById i ps = Some p \<Longrightarrow> p_oid p = i"
  by (auto simp: Payment_findById_def find_Some_iff)

lemma Course_findOne_c_id: "Course_findOne cid cs = Some crs \<Longrightarrow> c_id crs = cid"
  by (auto simp: Course_findOne_def find_Some_iff)

lemma Payment_validate_marked [simp]:
  "Payment_validate (marked_completed req p) = Payment_validate p"
  by (simp add: Payment_validate_def split: payment_type.splits)

text \<open>What the validators of the Payment schema ask of a document.\<close>

lemma Payment_validate_iff:
  "Payment_validate p \<longleftrightarrow>
     p_user p \<noteq> [] \<and> 0 \<le> p_amount p \<and>
     (p_paymentType p = Type_registration \<or> (\<exists>cid. p_course p = Some cid \<and> cid \<noteq> []))"
  by (cases "p_paymentType p"; cases "p_course p") (simp_all add: Payment_validate_def)

lemma Payment_validate_course:
  assumes "p_paymentType p = Type_course" and "p_course p = Some cid"
  shows "Payment_validate p \<longleftrightarrow> p_user p \<noteq> [] \<and> 0 \<le> p_amount p \<and> cid \<noteq> []"
  using assms by (simp add: Payment_validate_def)

lemma Payment_findById_save:
  assumes "Payment_findById i ps = Some p" and "p_oid q = p_oid p"
    and "Payment_save q ps = Inr saved"
  shows "Payment_findById i saved = Some q"
proof -
  from assms(1) have "p_oid p = i" by (rule Payment_findById_oid)
  with assms show ?thesis
    unfolding Payment_findById_def Payment_save_def
    by (auto simp: find_update_first split: if_splits)
qed

text \<open>
  A payment that passes the checks and the validators is saved as completed, whatever
  follows; one that fails the validators is not saved, and the answer is 500.
\<close>

lemma verify_payment_try_payments:
  assumes "passes_checks hmac key req d i p" and "Payment_validate p"
  shows "Payment_save (marked_completed req p) (payments d) =
           Inr (payments (snd (verify_payment_try hmac (Some key) tza now dateNow req d)))"
  using assms
  by (auto simp: passes_checks_def verify_payment_try_def Let_def findByIdAndUpdate_def
      castObjectId_def Payment_save_def
      split: option.splits payment_type.splits sum.splits prod.splits)

lemma verify_payment_invalid:
  assumes "passes_checks hmac key req d i p" and "\<not> Payment_validate p"
  shows "verify_payment hmac (Some key) tza now dateNow req d =
    (Response 500 False ''Payment verification failed. Please contact support.'' NoPayload, d)"
  using assms
  by (simp add: passes_checks_def verify_payment_def verify_payment_try_def Let_def
      Payment_save_def)

text \<open>No verification changes the user collection, whatever the request and the store.\<close>

lemma verify_payment_users:
  "users (snd (verify_payment hmac secret tza now dateNow req d)) = users d"
  by (auto simp: verify_payment_snd verify_payment_try_def Let_def findByIdAndUpdate_def
      castObjectId_def
      split: option.splits payment_ref.splits payment_type.splits sum.splits prod.splits)

lemma verify_course_missing:
  assumes "passes_checks hmac key req d i p" and "Payment_validate p"
    and "p_paymentType p = Type_course"
    and "p_course p = Some cid" and "Course_findOne cid (courses d) = None"
  shows "verify_payment hmac (Some key) tza now dateNow req d =
    (Response 404 False ''Course not found.'' NoPayload,
     d\<lparr>payments := saved_payments req p (payments d)\<rparr>)"
  using assms
  by (simp add: passes_checks_def verify_payment_def verify_payment_try_def Let_def
      Payment_save_def)

lemma verify_course_success_enrolled:
  assumes "passes_checks hmac key req d i p"
    and "verify_payment hmac (Some key) tza now dateNow req d =
           (Response 200 True msg (CourseEnrolled cid ttl t), d')"
  shows "list_ex (\<lambda>e. e_user e = p_user p \<and> e_course e = cid \<and> e_payment e = i \<and>
            e_expiresAt e = t \<and> e_status e = Enr_active) (enrollments d')"
  using assms
  by (auto simp: passes_checks_def verify_payment_def verify_payment_try_def Let_def
      findByIdAndUpdate_def castObjectId_def Enrollment_save_def
      dest: Payment_findById_oid Course_findOne_c_id
      split: option.splits payment_type.splits sum.splits prod.splits if_splits)

text \<open>
  With an enrollment for the pair in the store, the course branch never gets past the
  insert.
\<close>

lemma verify_try_existing_pair:
  assumes "passes_checks hmac key req d i p" and "Payment_validate p"
    and "p_paymentType p = Type_course"
    and "p_course p = Some cid" and "Course_findOne cid (courses d) = Some crs"
    and "list_ex (\<lambda>e. e_user e = p_user p \<and> e_course e = cid) (enrollments d)"
  shows "\<exists>err. verify_payment_try hmac (Some key) tza now dateNow req d =
           (Inl err, d\<lparr>payments := saved_payments req p (payments d)\<rparr>) \<and>
           (\<forall>t. computeExpiresAt tza (accessDuration crs) now = Inr (Some t) \<longrightarrow>
              err = DuplicateKey)"
proof -
  have u: "p_user p \<noteq> []" and c: "cid \<noteq> []"
    using assms(2-4) by (simp_all add: Payment_validate_def)
  show ?thesis
  proof (cases "computeExpiresAt tza (accessDuration crs) now")
    case (Inl e)
    then show ?thesis
      using assms by (simp add: passes_checks_def verify_payment_try_def Let_def Payment_save_def)
  next
    case (Inr v)
    then show ?thesis
      using assms u c
      by (cases v)
        (simp_all add: passes_checks_def verify_payment_try_def Let_def Payment_save_def
          Enrollment_save_def)
  qed
qed

text \<open>
  C3, as the code has it. The handler saves the payment as \<open>completed\<close> and only then
  turns to the side effect; nothing undoes the save when a later step fails. Here the
  course of the example payment is not in the store: the answer is 404, the payment
  is left \<open>completed\<close>, and there is no enrollment.
\<close>

theorem course_missing_counterexample:
  "verify_payment demo_hmac (Some ''k'') zone_utc demo_now 5 demo_request
     (demo_db\<lparr>courses := []\<rparr>) =
     (Response 404 False ''Course not found.'' NoPayload,
      demo_db\<lparr>courses := [],
        payments := [demo_course_payment\<lparr>p_status := Pay_completed,
                       gw_paymentId := Some ''p1'', gw_signature := Some ''ko1|p1''\<rparr>,
                     demo_registration_payment]\<rparr>)
   \<and> enrollments (demo_db\<lparr>courses := []\<rparr>) = []"
  by (simp add: demo_defs eval_defs)

text \<open>
  C3, amended. A request passes the checks (its fields are present, its signature is
  valid, the payment is found and is not completed yet). If the payment passes the
  validators of the Payment schema (user present, amount not negative, course present
  for a course payment), it is saved as \<open>completed\<close>, with the gateway's payment id
  and the signature, before the side effect is attempted, and it is \<open>completed\<close> in
  the store the handler leaves, whatever the answer: the write is not undone when a
  later step fails. If it fails the validators, the answer is 500 and the store is
  left as it was. When the course of a course payment that passes the validators is
  not found, the answer is 404 and neither an enrollment is inserted nor a counter
  incremented. When the answer is the success of a course payment, the active
  enrollment for that payment is in the store.
\<close>

theorem status_write_not_undone:
  assumes "passes_checks hmac key req d i p"
    and "verify_payment hmac (Some key) tza now dateNow req d = (resp, d')"
  shows "(p_user p \<noteq> [] \<and> 0 \<le> p_amount p \<and>
          (p_paymentType p = Type_registration \<or> (\<exists>c. p_course p = Some c \<and> c \<noteq> [])) \<longrightarrow>
            Payment_findById i (payments d') = Some (marked_completed req p))
       \<and> (p_user p = [] \<or> p_amount p < 0 \<or>
          (p_paymentType p = Type_course \<and> (p_course p = None \<or> p_course p = Some []))
            \<longrightarrow>
            resp = Response 500 False
                     ''Payment verification failed. Please contact support.'' NoPayload \<and>
            d' = d)
       \<and> (p_user p \<noteq> [] \<and> 0 \<le> p_amount p \<and> p_paymentType p = Type_course \<and>
          p_course p = Some cid \<and> cid \<noteq> [] \<and> Course_findOne cid (courses d) = None \<longrightarrow>
            resp = Response 404 False ''Course not found.'' NoPayload \<and>
            enrollments d' = enrollments d \<and> courses d' = courses d)
       \<and> (\<forall>msg cid ttl t. resp = Response 200 True msg (CourseEnrolled cid ttl t) \<longrightarrow>
            list_ex (\<lambda>e. e_user e = p_user p \<and> e_course e = cid \<and> e_payment e = i \<and>
              e_expiresAt e = t \<and> e_status e = Enr_active) (enrollments d'))"
proof -
  have found: "Payment_findById i (payments d) = Some p"
    using assms(1) by (simp add: passes_checks_def)
  have d': "d' = snd (verify_payment_try hmac (Some key) tza now dateNow req d)"
    using assms(2) verify_payment_snd [of hmac "Some key" tza now dateNow req d] by simp
  have a: "Payment_findById i (payments d') = Some (marked_completed req p)"
    if "p_user p \<noteq> [] \<and> 0 \<le> p_amount p \<and>
          (p_paymentType p = Type_registration \<or> (\<exists>c. p_course p = Some c \<and> c \<noteq> []))"
  proof -
    from that have v: "Payment_validate p" by (simp add: Payment_validate_iff)
    show ?thesis
      using Payment_findById_save [OF found _
          verify_payment_try_payments [OF assms(1) v, of tza now dateNow]]
      by (simp add: d')
  qed
  have inv: "resp = Response 500 False
                     ''Payment verification failed. Please contact support.'' NoPayload \<and>
            d' = d"
    if "p_user p = [] \<or> p_amount p < 0 \<or>
          (p_paymentType p = Type_course \<and> (p_course p = None \<or> p_course p = Some []))"
  proof -
    from that have v: "\<not> Payment_validate p" by (auto simp: Payment_validate_iff)
    show ?thesis
      using verify_payment_invalid [OF assms(1) v, of tza now dateNow] assms(2) by simp
  qed
  have b: "resp = Response 404 False ''Course not found.'' NoPayload \<and>
          enrollments d' = enrollments d \<and> courses d' = courses d"
    if "p_user p \<noteq> [] \<and> 0 \<le> p_amount p \<and> p_paymentType p = Type_course \<and>
          p_course p = Some cid \<and> cid \<noteq> [] \<and> Course_findOne cid (courses d) = None"
  proof -
    from that have v: "Payment_validate p" by (simp add: Payment_validate_iff)
    show ?thesis
      using verify_course_missing [OF assms(1) v, of cid tza now dateNow] that assms(2)
      by auto
  qed
  have c: "list_ex (\<lambda>e. e_user e = p_user p \<and> e_course e = cid \<and> e_payment e = i \<and>
              e_expiresAt e = t \<and> e_status e = Enr_active) (enrollments d')"
    if "resp = Response 200 True msg (CourseEnrolled cid ttl t)" for msg cid ttl t
    using verify_course_success_enrolled [OF assms(1)] assms(2) that by simp
  show ?thesis using a inv b c by blast
qed

theorem status_write_not_undone_witness:
  "Payment_findById 1 (payments (snd (verify_payment demo_hmac (Some ''k'') zone_utc demo_now 5
       demo_request (demo_db\<lparr>courses := []\<rparr>)))) =
     Some (demo_course_payment\<lparr>p_status := Pay_completed, gw_paymentId := Some ''p1'',
             gw_signature := Some ''ko1|p1''\<rparr>)
   \<and> fst (verify_payment demo_hmac (Some ''k'') zone_utc demo_now 5 demo_request
       (demo_db\<lparr>courses := []\<rparr>)) = Response 404 False ''Course not found.'' NoPayload
   \<and> list_ex (\<lambda>e. e_user e = ''u1'' \<and> e_course e = ''c1'' \<and> e_payment e = 1 \<and>
        e_expiresAt e = 1738281600000 \<and> e_status e = Enr_active)
       (enrollments (snd (verify_payment demo_hmac (Some ''k'') zone_utc demo_now 5
          demo_request demo_db)))
   \<and> verify_payment demo_hmac (Some ''k'') zone_utc demo_now 5 demo_request
       (demo_db\<lparr>payments := [demo_course_payment\<lparr>p_amount := - 1\<rparr>]\<rparr>) =
     (Response 500 False ''Payment verification failed. Please contact support.'' NoPayload,
      demo_db\<lparr>payments := [demo_course_payment\<lparr>p_amount := - 1\<rparr>]\<rparr>)"
proof -
  have p1: "passes_checks demo_hmac ''k'' demo_request (demo_db\<lparr>courses := []\<rparr>) 1
      demo_course_payment"
    by (simp add: passes_checks_def demo_defs Payment_findById_def)
  have p2: "passes_checks demo_hmac ''k'' demo_request demo_db 1 demo_course_payment"
    by (simp add: passes_checks_def demo_defs Payment_findById_def)
  have p3: "passes_checks demo_hmac ''k'' demo_request
      (demo_db\<lparr>payments := [demo_course_payment\<lparr>p_amount := - 1\<rparr>]\<rparr>) 1
      (demo_course_payment\<lparr>p_amount := - 1\<rparr>)"
    by (simp add: passes_checks_def demo_defs Payment_findById_def)
  have r2: "fst (verify_payment demo_hmac (Some ''k'') zone_utc demo_now 5 demo_request demo_db) =
      Response 200 True
        ''Course enrollment successful! You now have access to the course content.''
        (CourseEnrolled ''c1'' ''Algebra'' 1738281600000)"
    by (simp add: demo_defs eval_defs)
  have v: "p_user demo_course_payment \<noteq> []" "0 \<le> p_amount demo_course_payment"
    "p_amount (demo_course_payment\<lparr>p_amount := - 1\<rparr>) < 0"
    by (simp_all add: demo_defs)
  have m: "p_paymentType demo_course_payment = Type_course"
    "p_course demo_course_payment = Some ''c1''" "''c1'' \<noteq> []"
    "Course_findOne ''c1'' (courses (demo_db\<lparr>courses := []\<rparr>)) = None"
    by (simp_all add: demo_defs Course_findOne_def)
  have u: "p_user demo_course_payment = ''u1''"
    "razorpay_payment_id demo_request = Some ''p1''" "signature demo_request = ''ko1|p1''"
    by (simp_all add: demo_defs)
  note t1 = status_write_not_undone [OF p1 surjective_pairing, of zone_utc demo_now 5 "''c1''"]
  note t2 = status_write_not_undone [OF p2 surjective_pairing, of zone_utc demo_now 5]
  note t3 = status_write_not_undone [OF p3 surjective_pairing, of zone_utc demo_now 5]
  have a: "Payment_findById 1 (payments (snd (verify_payment demo_hmac (Some ''k'') zone_utc
       demo_now 5 demo_request (demo_db\<lparr>courses := []\<rparr>)))) =
     Some (demo_course_payment\<lparr>p_status := Pay_completed, gw_paymentId := Some ''p1'',
             gw_signature := Some ''ko1|p1''\<rparr>)"
    using t1 u v(1,2) m(2,3) by simp
  have b: "fst (verify_payment demo_hmac (Some ''k'') zone_utc demo_now 5 demo_request
       (demo_db\<lparr>courses := []\<rparr>)) = Response 404 False ''Course not found.'' NoPayload"
    using t1 m v(1,2) by blast
  have c: "list_ex (\<lambda>e. e_user e = ''u1'' \<and> e_course e = ''c1'' \<and> e_payment e = 1 \<and>
        e_expiresAt e = 1738281600000 \<and> e_status e = Enr_active)
       (enrollments (snd (verify_payment demo_hmac (Some ''k'') zone_utc demo_now 5
          demo_request demo_db)))"
    using t2 r2 u by simp
  have e: "verify_payment demo_hmac (Some ''k'') zone_utc demo_now 5 demo_request
       (demo_db\<lparr>payments := [demo_course_payment\<lparr>p_amount := - 1\<rparr>]\<rparr>) =
     (Response 500 False ''Payment verification failed. Please contact support.'' NoPayload,
      demo_db\<lparr>payments := [demo_course_payment\<lparr>p_amount := - 1\<rparr>]\<rparr>)"
    using t3 v(3) by (simp add: prod_eq_iff)
  show ?thesis using a b c e by blast
qed

text \<open>
  C4. The registration branch calls
  \<^verbatim>\<open>User.findByIdAndUpdate({ author_id: payment.user }, { hasPaidRegistrationFee: true, ... })\<close>:
  it hands a filter object to a function that looks its first argument up in \<^verbatim>\<open>_id\<close>.
  (The sibling calls are right: \<^verbatim>\<open>Course.findByIdAndUpdate(course._id, ...)\<close> in the
  same handler, \<^verbatim>\<open>User.findOneAndUpdate({ author_id: userId }, ...)\<close> in
  \<^verbatim>\<open>routes/admin.js\<close>.) The query is rejected, the \<^verbatim>\<open>catch\<close> block answers 500, and
  no user is updated. Here the example student's pending registration payment is
  verified with a valid signature: the payment is left \<open>completed\<close>, the student's
  flag is still unset, and \<open>requireRegistrationFee\<close> still answers 402.
\<close>

theorem registration_flag_not_set:
  "verify_payment demo_hmac (Some ''k'') zone_utc demo_now 5 demo_registration_request demo_db =
     (Response 500 False ''Payment verification failed. Please contact support.'' NoPayload,
      demo_db\<lparr>payments := [demo_course_payment,
        demo_registration_payment\<lparr>p_status := Pay_completed, gw_paymentId := Some ''p2'',
          gw_signature := Some ''ko2|p2''\<rparr>]\<rparr>)
   \<and> users (snd (verify_payment demo_hmac (Some ''k'') zone_utc demo_now 5
        demo_registration_request demo_db)) = [demo_student]
   \<and> hasPaidRegistrationFee demo_student = False
   \<and> requireRegistrationFee None (Some demo_student) =
       Respond (Response 402 False ''Registration fee payment required to access this feature.''
         (PaymentRequired (Num 699)))"
  by (simp add: demo_defs demo_registration_request_def eval_defs requireRegistrationFee_def
      registrationFeeAmount_def)

text \<open>
  C5, as the code has it. The course branch always constructs a new enrollment and
  saves it; it never looks for an existing one. Here the user's enrollment for the
  course is \<open>expired\<close>: the insert is rejected by the unique index, the answer is 500,
  and the enrollment is as it was, still \<open>expired\<close>, with its old payment reference
  and its old \<open>expiresAt\<close>.
\<close>

theorem renewal_counterexample:
  "verify_payment demo_hmac (Some ''k'') zone_utc demo_now 5 demo_request
     (demo_db\<lparr>enrollments := [demo_enrollment\<lparr>e_status := Enr_expired\<rparr>]\<rparr>) =
     (Response 500 False ''Payment verification failed. Please contact support.'' NoPayload,
      demo_db\<lparr>enrollments := [demo_enrollment\<lparr>e_status := Enr_expired\<rparr>],
        payments := [demo_course_payment\<lparr>p_status := Pay_completed,
                       gw_paymentId := Some ''p1'', gw_signature := Some ''ko1|p1''\<rparr>,
                     demo_registration_payment]\<rparr>)
   \<and> e_status (demo_enrollment\<lparr>e_status := Enr_expired\<rparr>) = Enr_expired
   \<and> e_payment (demo_enrollment\<lparr>e_status := Enr_expired\<rparr>) = 9
   \<and> e_expiresAt (demo_enrollment\<lparr>e_status := Enr_expired\<rparr>) = 2000"
  by (simp add: demo_defs eval_defs)

text \<open>
  C5, amended. A course payment passes the checks (fields present, signature valid,
  payment found and not completed yet) and an enrollment for its user and course is
  in the store, in whatever status. Then the existing enrollment is not renewed and
  no second one is inserted: the enrollment collection and the courses, their
  counters with them, are left exactly as they were. The answer is 404 when the
  payment passes the validators of the Payment schema (its user and course are
  present, its amount is not negative) and its course is not found, and 500 in every
  other case. When the payment passes the validators, its course is found and the
  expiry computes to a valid date, the 500 is the unique index on \<open>(user, course)\<close>
  rejecting the insert that the handler attempts.
\<close>

theorem existing_enrollment_not_renewed:
  assumes "passes_checks hmac key req d i p" and "p_paymentType p = Type_course"
    and "p_course p = Some cid"
    and "list_ex (\<lambda>e. e_user e = p_user p \<and> e_course e = cid) (enrollments d)"
    and "verify_payment hmac (Some key) tza now dateNow req d = (resp, d')"
  shows "enrollments d' = enrollments d \<and> courses d' = courses d
       \<and> resp =
           (if p_user p \<noteq> [] \<and> 0 \<le> p_amount p \<and> cid \<noteq> [] \<and>
               Course_findOne cid (courses d) = None
            then Response 404 False ''Course not found.'' NoPayload
            else Response 500 False
                   ''Payment verification failed. Please contact support.'' NoPayload)
       \<and> (\<forall>crs t. p_user p \<noteq> [] \<and> 0 \<le> p_amount p \<and> cid \<noteq> [] \<and>
             Course_findOne cid (courses d) = Some crs \<and>
             computeExpiresAt tza (accessDuration crs) now = Inr (Some t) \<longrightarrow>
           fst (verify_payment_try hmac (Some key) tza now dateNow req d) = Inl DuplicateKey)"
proof (cases "Payment_validate p")
  case False
  then have "\<not> (p_user p \<noteq> [] \<and> 0 \<le> p_amount p \<and> cid \<noteq> [])"
    by (simp add: Payment_validate_course [OF assms(2,3)])
  then show ?thesis
    using verify_payment_invalid [OF assms(1) False, of tza now dateNow] assms(5) by auto
next
  case valid: True
  then have ok: "p_user p \<noteq> [] \<and> 0 \<le> p_amount p \<and> cid \<noteq> []"
    by (simp add: Payment_validate_course [OF assms(2,3)])
  show ?thesis
  proof (cases "Course_findOne cid (courses d)")
    case None
    then show ?thesis
      using verify_course_missing [OF assms(1) valid assms(2,3) None, of tza now dateNow]
        assms(5) ok
      by auto
  next
    case (Some crs)
    define saved where "saved = saved_payments req p (payments d)"
    obtain err where
      t: "verify_payment_try hmac (Some key) tza now dateNow req d =
            (Inl err, d\<lparr>payments := saved\<rparr>)"
      and k: "\<And>t. computeExpiresAt tza (accessDuration crs) now = Inr (Some t) \<Longrightarrow>
            err = DuplicateKey"
      using verify_try_existing_pair [OF assms(1) valid assms(2,3) Some assms(4),
          of tza now dateNow]
      unfolding saved_def by blast
    have "verify_payment hmac (Some key) tza now dateNow req d =
        (Response 500 False ''Payment verification failed. Please contact support.'' NoPayload,
         d\<lparr>payments := saved\<rparr>)"
      by (simp add: verify_payment_def t)
    with assms(5) have r: "resp = Response 500 False
          ''Payment verification failed. Please contact support.'' NoPayload"
      and d': "d' = d\<lparr>payments := saved\<rparr>"
      by simp_all
    show ?thesis using r d' Some t k ok by auto
  qed
qed

theorem existing_enrollment_not_renewed_witness:
  "verify_payment demo_hmac (Some ''k'') zone_utc demo_now 5 demo_request
     (demo_db\<lparr>enrollments := [demo_enrollment\<lparr>e_status := Enr_cancelled\<rparr>]\<rparr>) =
     (Response 500 False ''Payment verification failed. Please contact support.'' NoPayload,
      demo_db\<lparr>enrollments := [demo_enrollment\<lparr>e_status := Enr_cancelled\<rparr>],
        payments := [demo_course_payment\<lparr>p_status := Pay_completed,
                       gw_paymentId := Some ''p1'', gw_signature := Some ''ko1|p1''\<rparr>,
                     demo_registration_payment]\<rparr>)
   \<and> fst (verify_payment_try demo_hmac (Some ''k'') zone_utc demo_now 5 demo_request
       (demo_db\<lparr>enrollments := [demo_enrollment\<lparr>e_status := Enr_cancelled\<rparr>]\<rparr>)) =
     Inl DuplicateKey
   \<and> fst (verify_payment demo_hmac (Some ''k'') zone_utc demo_now 5 demo_request
       (demo_db\<lparr>enrollments := [demo_enrollment], courses := []\<rparr>)) =
     Response 404 False ''Course not found.'' NoPayload
   \<and> enrollments (snd (verify_payment demo_hmac (Some ''k'') zone_utc demo_now 5 demo_request
       (demo_db\<lparr>enrollments := [demo_enrollment], courses := []\<rparr>))) = [demo_enrollment]"
proof -
  let ?d1 = "demo_db\<lparr>enrollments := [demo_enrollment\<lparr>e_status := Enr_cancelled\<rparr>]\<rparr>"
  let ?d2 = "demo_db\<lparr>enrollments := [demo_enrollment], courses := []\<rparr>"
  have p1: "passes_checks demo_hmac ''k'' demo_request ?d1 1 demo_course_payment"
    and p2: "passes_checks demo_hmac ''k'' demo_request ?d2 1 demo_course_payment"
    by (simp_all add: passes_checks_def demo_defs Payment_findById_def)
  have h: "p_paymentType demo_course_payment = Type_course"
    "p_course demo_course_payment = Some ''c1''"
    by (simp_all add: demo_defs)
  have l1: "list_ex (\<lambda>e. e_user e = p_user demo_course_payment \<and> e_course e = ''c1'')
      (enrollments ?d1)"
    and l2: "list_ex (\<lambda>e. e_user e = p_user demo_course_payment \<and> e_course e = ''c1'')
      (enrollments ?d2)"
    by (simp_all add: demo_defs)
  have v: "p_user demo_course_payment \<noteq> [] \<and> 0 \<le> p_amount demo_course_payment \<and> ''c1'' \<noteq> []"
    by (simp add: demo_defs)
  have c1: "Course_findOne ''c1'' (courses ?d1) = Some demo_course"
    and c2: "Course_findOne ''c1'' (courses ?d2) = None"
    by (simp_all add: demo_defs Course_findOne_def)
  have x: "computeExpiresAt zone_utc (accessDuration demo_course) demo_now =
      Inr (Some 1738281600000)"
    by (simp add: demo_defs eval_defs)
  have s: "snd (verify_payment demo_hmac (Some ''k'') zone_utc demo_now 5 demo_request ?d1) =
      demo_db\<lparr>enrollments := [demo_enrollment\<lparr>e_status := Enr_cancelled\<rparr>],
        payments := [demo_course_payment\<lparr>p_status := Pay_completed,
                       gw_paymentId := Some ''p1'', gw_signature := Some ''ko1|p1''\<rparr>,
                     demo_registration_payment]\<rparr>"
    by (simp add: demo_defs eval_defs)
  note t1 = existing_enrollment_not_renewed [OF p1 h l1 surjective_pairing,
      of zone_utc demo_now 5]
  note t2 = existing_enrollment_not_renewed [OF p2 h l2 surjective_pairing,
      of zone_utc demo_now 5]
  have a: "fst (verify_payment demo_hmac (Some ''k'') zone_utc demo_now 5 demo_request ?d1) =
      Response 500 False ''Payment verification failed. Please contact support.'' NoPayload"
    using t1 c1 by simp
  have b: "fst (verify_payment_try demo_hmac (Some ''k'') zone_utc demo_now 5 demo_request ?d1) =
      Inl DuplicateKey"
    using t1 v c1 x by blast
  have c: "fst (verify_payment demo_hmac (Some ''k'') zone_utc demo_now 5 demo_request ?d2) =
      Response 404 False ''Course not found.'' NoPayload"
    using t2 v c2 by simp
  have e: "enrollments (snd (verify_payment demo_hmac (Some ''k'') zone_utc demo_now 5
      demo_request ?d2)) = [demo_enrollment]"
    using t2 by simp
  have f: "verify_payment demo_hmac (Some ''k'') zone_utc demo_now 5 demo_request ?d1 =
     (Response 500 False ''Payment verification failed. Please contact support.'' NoPayload,
      demo_db\<lparr>enrollments := [demo_enrollment\<lparr>e_status := Enr_cancelled\<rparr>],
        payments := [demo_course_payment\<lparr>p_status := Pay_completed,
                       gw_paymentId := Some ''p1'', gw_signature := Some ''ko1|p1''\<rparr>,
                     demo_registration_payment]\<rparr>)"
    using a s by (simp add: prod_eq_iff)
  show ?thesis using f b c e by blast
qed

section \<open>The expiry of an enrollment\<close>

subsection \<open>A duration with no unit\<close>

lemma computeExpiresAt_no_unit:
  assumes "s \<noteq> []" and "\<not> str_includes s ''year''" and "\<not> str_includes s ''month''"
    and "\<not> str_includes s ''day''"
  shows "computeExpiresAt tza s now = Inr (Some (getTime now))"
  using assms by (simp add: computeExpiresAt_def)

lemma verify_course_success:
  assumes "passes_checks hmac key req d i p" and "Payment_validate p"
    and "p_paymentType p = Type_course"
    and "p_course p = Some cid" and "Course_findOne cid (courses d) = Some crs"
    and "computeExpiresAt tza (accessDuration crs) now = Inr (Some t)"
    and "\<not> list_ex (\<lambda>e. e_user e = p_user p \<and> e_course e = cid) (enrollments d)"
  shows "verify_payment hmac (Some key) tza now dateNow req d =
    (Response 200 True
       ''Course enrollment successful! You now have access to the course content.''
       (CourseEnrolled (c_id crs) (c_title crs) t),
     d\<lparr>payments := saved_payments req p (payments d),
       enrollments := enrollments d @
         [\<lparr>e_user = p_user p, e_course = cid, e_enrolledAt = dateNow, e_expiresAt = t,
           e_status = Enr_active, e_payment = p_oid p\<rparr>],
       courses := update_first (\<lambda>c. c_oid c = c_oid crs)
         (\<lambda>c. c\<lparr>enrollmentCount := enrollmentCount c + 1\<rparr>) (courses d)\<rparr>)"
proof -
  have u: "p_user p \<noteq> []" and c: "cid \<noteq> []"
    using assms(2-4) by (simp_all add: Payment_validate_def)
  show ?thesis
    using assms u c
    by (simp add: passes_checks_def verify_payment_def verify_payment_try_def Let_def
        Payment_save_def Enrollment_save_def findByIdAndUpdate_def castObjectId_def)
qed

lemma find_update_first_inv:
  assumes "find Q xs = Some x" and "\<And>y. Q (f y) = Q y"
  shows "find Q (update_first P f xs) = Some x \<or> find Q (update_first P f xs) = Some (f x)"
  using assms by (induction xs) (auto split: if_splits)

lemma find_append_new:
  assumes "\<not> list_ex Q xs" and "\<And>x. P x \<Longrightarrow> Q x" and "P y"
  shows "find P (xs @ [y]) = Some y"
  using assms by (induction xs) auto

lemma Course_findOne_after_increment:
  assumes "Course_findOne cid cs = Some crs"
  shows "\<exists>crs'. Course_findOne cid
            (update_first P (\<lambda>c. c\<lparr>enrollmentCount := enrollmentCount c + 1\<rparr>) cs) = Some crs'
          \<and> c_status crs' = c_status crs"
  using find_update_first_inv [of "\<lambda>c. c_id c = cid" cs crs
      "\<lambda>c. c\<lparr>enrollmentCount := enrollmentCount c + 1\<rparr>" P] assms
  by (auto simp: Course_findOne_def)

text \<open>
  C10, as the code has it. With the access duration \<^verbatim>\<open>lifetime\<close> the example payment
  is verified and the enrollment gets the time of the verification as its
  \<open>expiresAt\<close>. A \<open>checkCourseAccess\<close> that reads the clock in that same millisecond
  is not denied: the comparison is \<^verbatim>\<open>new Date() > enrollment.expiresAt\<close>, and the
  enrollment is admitted. And an access duration that is the empty string, which
  contains none of the three units either, is replaced by \<^verbatim>\<open>1 year\<close>: the expiry
  computed for it is a year later.
\<close>

theorem unitless_duration_same_instant_counterexample:
  "fst (verify_payment demo_hmac (Some ''k'') zone_utc demo_now 5 demo_request demo_lifetime_db) =
     Response 200 True
       ''Course enrollment successful! You now have access to the course content.''
       (CourseEnrolled ''c1'' ''Algebra'' 1706659200000)
   \<and> getTime demo_now = 1706659200000
   \<and> checkCourseAccess 1706659200000 (Some demo_student) ''c1''
        (snd (verify_payment demo_hmac (Some ''k'') zone_utc demo_now 5 demo_request
           demo_lifetime_db)) =
       Next (\<lparr>e_user = ''u1'', e_course = ''c1'', e_enrolledAt = 5,
               e_expiresAt = 1706659200000, e_status = Enr_active, e_payment = 1\<rparr>,
             demo_course\<lparr>accessDuration := ''lifetime'', enrollmentCount := 1\<rparr>)
   \<and> computeExpiresAt zone_utc [] demo_now = Inr (Some 1738281600000)"
  by (simp add: demo_lifetime_db_def demo_defs eval_defs checkCourseAccess_def userId_of_def)

text \<open>
  C10, amended. A course payment passes the checks and the validators of the Payment
  schema (its user and course are present, its amount is not negative), its course is
  found and there is no enrollment yet for its user and course.
  When the course's access duration is not empty and contains none of \<^verbatim>\<open>year\<close>,
  \<^verbatim>\<open>month\<close> and \<^verbatim>\<open>day\<close>, the verification answers success and inserts the active
  enrollment, whose \<open>expiresAt\<close> is the time of the verification; and in the store it
  leaves, every \<open>checkCourseAccess\<close> of that user for the course (published) that
  reads the clock strictly later than that time is answered with the expired-access
  response.
\<close>

theorem unitless_duration_expires_at_once:
  assumes "passes_checks hmac key req d i p"
    and "p_user p \<noteq> [] \<and> 0 \<le> p_amount p \<and> cid \<noteq> []"
    and "p_paymentType p = Type_course"
    and "p_course p = Some cid" and "Course_findOne cid (courses d) = Some crs"
    and "\<not> list_ex (\<lambda>e. e_user e = p_user p \<and> e_course e = cid) (enrollments d)"
    and "accessDuration crs \<noteq> []"
    and "\<not> str_includes (accessDuration crs) ''year''"
    and "\<not> str_includes (accessDuration crs) ''month''"
    and "\<not> str_includes (accessDuration crs) ''day''"
    and "verify_payment hmac (Some key) tza now dateNow req d = (resp, d')"
  shows "resp = Response 200 True
           ''Course enrollment successful! You now have access to the course content.''
           (CourseEnrolled (c_id crs) (c_title crs) (getTime now))
       \<and> enrollments d' = enrollments d @
           [\<lparr>e_user = p_user p, e_course = cid, e_enrolledAt = dateNow,
             e_expiresAt = getTime now, e_status = Enr_active, e_payment = p_oid p\<rparr>]
       \<and> (\<forall>later u. getTime now < later \<and> author_id u = p_user p \<and>
             c_status crs = Crs_published \<longrightarrow>
           checkCourseAccess later (Some u) cid d' =
             Respond (Response 403 False
               ''Your course access has expired. Please renew your enrollment.''
               (ExpiredAt (getTime now))))"
proof -
  let ?doc = "\<lparr>e_user = p_user p, e_course = cid, e_enrolledAt = dateNow,
             e_expiresAt = getTime now, e_status = Enr_active, e_payment = p_oid p\<rparr>"
  let ?cs = "update_first (\<lambda>c. c_oid c = c_oid crs)
         (\<lambda>c. c\<lparr>enrollmentCount := enrollmentCount c + 1\<rparr>) (courses d)"
  have usr: "p_user p \<noteq> []"
    using assms(2) by simp
  have valid: "Payment_validate p"
    using assms(2) by (simp add: Payment_validate_course [OF assms(3,4)])
  have exp: "computeExpiresAt tza (accessDuration crs) now = Inr (Some (getTime now))"
    using assms(7-10) by (rule computeExpiresAt_no_unit)
  note v = verify_course_success [OF assms(1) valid assms(3-5) exp assms(6), of dateNow]
  have r: "resp = Response 200 True
           ''Course enrollment successful! You now have access to the course content.''
           (CourseEnrolled (c_id crs) (c_title crs) (getTime now))"
    and e: "enrollments d' = enrollments d @ [?doc]"
    and c: "courses d' = ?cs"
    using v assms(11) by auto
  have access: "checkCourseAccess later (Some u) cid d' =
             Respond (Response 403 False
               ''Your course access has expired. Please renew your enrollment.''
               (ExpiredAt (getTime now)))"
    if lt: "getTime now < later" and au: "author_id u = p_user p"
      and pub: "c_status crs = Crs_published"
    for later u
  proof -
    obtain crs' where crs': "Course_findOne cid (courses d') = Some crs'"
      "c_status crs' = Crs_published"
      using Course_findOne_after_increment [OF assms(5), of "\<lambda>c. c_oid c = c_oid crs"] c pub
      by auto
    have f: "Enrollment_findOne (author_id u) cid [Enr_active] (enrollments d') = Some ?doc"
      unfolding Enrollment_findOne_def e
      by (rule find_append_new [OF assms(6)]) (simp_all add: au)
    show ?thesis
      using crs' f lt au usr
      by (simp add: checkCourseAccess_def userId_of_def)
  qed
  show ?thesis using r e access by blast
qed

theorem unitless_duration_expires_at_once_witness:
  "fst (verify_payment demo_hmac (Some ''k'') zone_ist demo_now_ist 5 demo_request
       demo_lifetime_db) =
     Response 200 True
       ''Course enrollment successful! You now have access to the course content.''
       (CourseEnrolled ''c1'' ''Algebra'' 1706659200000)
   \<and> enrollments (snd (verify_payment demo_hmac (Some ''k'') zone_ist demo_now_ist 5 demo_request
        demo_lifetime_db)) =
       [\<lparr>e_user = ''u1'', e_course = ''c1'', e_enrolledAt = 5, e_expiresAt = 1706659200000,
         e_status = Enr_active, e_payment = 1\<rparr>]
   \<and> checkCourseAccess 1706659200001 (Some demo_student) ''c1''
        (snd (verify_payment demo_hmac (Some ''k'') zone_ist demo_now_ist 5 demo_request
           demo_lifetime_db)) =
       Respond (Response 403 False
         ''Your course access has expired. Please renew your enrollment.''
         (ExpiredAt 1706659200000))"
proof -
  have tv: "getTime demo_now_ist = 1706659200000"
    by (simp add: demo_now_ist_def)
  have p: "passes_checks demo_hmac ''k'' demo_request demo_lifetime_db 1 demo_course_payment"
    by (simp add: passes_checks_def demo_lifetime_db_def demo_defs Payment_findById_def)
  have v: "p_user demo_course_payment \<noteq> [] \<and> 0 \<le> p_amount demo_course_payment \<and> ''c1'' \<noteq> []"
    by (simp add: demo_defs)
  have c: "Course_findOne ''c1'' (courses demo_lifetime_db) =
      Some (demo_course\<lparr>accessDuration := ''lifetime''\<rparr>)"
    by (simp add: demo_lifetime_db_def demo_defs Course_findOne_def)
  have h: "p_paymentType demo_course_payment = Type_course"
    "p_course demo_course_payment = Some ''c1''"
    "\<not> list_ex (\<lambda>e. e_user e = p_user demo_course_payment \<and> e_course e = ''c1'')
         (enrollments demo_lifetime_db)"
    "accessDuration (demo_course\<lparr>accessDuration := ''lifetime''\<rparr>) \<noteq> []"
    "\<not> str_includes (accessDuration (demo_course\<lparr>accessDuration := ''lifetime''\<rparr>)) ''year''"
    "\<not> str_includes (accessDuration (demo_course\<lparr>accessDuration := ''lifetime''\<rparr>)) ''month''"
    "\<not> str_includes (accessDuration (demo_course\<lparr>accessDuration := ''lifetime''\<rparr>)) ''day''"
    by (simp_all add: demo_lifetime_db_def demo_defs)
  note t = unitless_duration_expires_at_once [OF p v h(1,2) c h(3-7) surjective_pairing,
      of zone_ist demo_now_ist 5, unfolded tv]
  have u: "author_id demo_student = p_user demo_course_payment"
    "c_status (demo_course\<lparr>accessDuration := ''lifetime''\<rparr>) = Crs_published"
    "c_id (demo_course\<lparr>accessDuration := ''lifetime''\<rparr>) = ''c1''"
    "c_title (demo_course\<lparr>accessDuration := ''lifetime''\<rparr>) = ''Algebra''"
    "p_user demo_course_payment = ''u1''" "p_oid demo_course_payment = 1"
    "enrollments demo_lifetime_db = []"
    by (simp_all add: demo_lifetime_db_def demo_defs)
  have a: "(1706659200000::int) < 1706659200001" by simp
  show ?thesis
    using t a u by simp
qed

subsection \<open>Years, months and days\<close>
































end
